theory Spec2Isabelle
  imports Complex_Main "HOL-Library.Char_ord" "HOL-Library.List_Lexorder"
begin

section \<open>Data model\<close>

subsection \<open>Floating-point values\<close>

text \<open>
  A float64 is a finite real, an infinity or NaN. The arithmetic written in the source
  (\<open>/\<close> and \<open>*\<close> on numpy scalars) rounds its exact result with a function \<open>rnd\<close>,
  a parameter of every definition that computes with floats; overflow to an infinity is
  outside the model. Division of numpy scalars does not raise on a zero divisor: it yields
  NaN for \<open>0 / 0\<close> and a signed infinity otherwise.
\<close>

datatype fl = Fin real | NaN | PosInf | NegInf

fun np_div :: "(real \<Rightarrow> real) \<Rightarrow> fl \<Rightarrow> fl \<Rightarrow> fl" where
  "np_div rnd (Fin a) (Fin b) =
     (if b = 0 then (if a = 0 then NaN else if 0 < a then PosInf else NegInf)
      else Fin (rnd (a / b)))"
| "np_div rnd NaN _ = NaN"
| "np_div rnd _ NaN = NaN"
| "np_div rnd (Fin a) _ = Fin 0"
| "np_div rnd PosInf (Fin b) = (if 0 \<le> b then PosInf else NegInf)"
| "np_div rnd NegInf (Fin b) = (if 0 \<le> b then NegInf else PosInf)"
| "np_div rnd _ _ = NaN"

fun np_mul :: "(real \<Rightarrow> real) \<Rightarrow> fl \<Rightarrow> fl \<Rightarrow> fl" where
  "np_mul rnd (Fin a) (Fin b) = Fin (rnd (a * b))"
| "np_mul rnd NaN _ = NaN"
| "np_mul rnd _ NaN = NaN"
| "np_mul rnd PosInf (Fin b) = (if b = 0 then NaN else if 0 < b then PosInf else NegInf)"
| "np_mul rnd NegInf (Fin b) = (if b = 0 then NaN else if 0 < b then NegInf else PosInf)"
| "np_mul rnd (Fin a) PosInf = (if a = 0 then NaN else if 0 < a then PosInf else NegInf)"
| "np_mul rnd (Fin a) NegInf = (if a = 0 then NaN else if 0 < a then NegInf else PosInf)"
| "np_mul rnd PosInf PosInf = PosInf"
| "np_mul rnd NegInf NegInf = PosInf"
| "np_mul rnd PosInf NegInf = NegInf"
| "np_mul rnd NegInf PosInf = NegInf"

text \<open>\<open>Series.mean()\<close>: the sum of the values over their number, NaN for no value.\<close>

definition mean :: "(real \<Rightarrow> real) \<Rightarrow> int list \<Rightarrow> fl" where
  "mean rnd xs = np_div rnd (Fin (of_int (sum_list xs))) (Fin (of_nat (length xs)))"

text \<open>
  \<open>Series.quantile(q)\<close> with the default linear interpolation, for \<open>0 \<le> q \<le> 1\<close>: on the
  sorted values \<open>s\<close>, at position \<open>h = (n - 1) * q\<close>, the value
  \<open>s[lo] + (s[hi] - s[lo]) * (h - lo)\<close>; NaN for no value. The library's own arithmetic
  is taken exact.
\<close>

definition quantile :: "int list \<Rightarrow> real \<Rightarrow> fl" where
  "quantile xs q =
     (if xs = [] then NaN
      else let s = sort xs;
               h = real (length xs - 1) * q;
               lo = nat \<lfloor>h\<rfloor>;
               hi = min (lo + 1) (length xs - 1)
           in Fin (of_int (s ! lo) + (of_int (s ! hi) - of_int (s ! lo)) * (h - real lo)))"

text \<open>Comparisons of a column cell with a scalar: a missing cell compares false.\<close>

fun cell_ge :: "int option \<Rightarrow> int \<Rightarrow> bool" where
  "cell_ge None _ = False"
| "cell_ge (Some x) y = (y \<le> x)"

fun cell_le :: "int option \<Rightarrow> int \<Rightarrow> bool" where
  "cell_le None _ = False"
| "cell_le (Some x) y = (x \<le> y)"

fun cell_le_fl :: "int option \<Rightarrow> fl \<Rightarrow> bool" where
  "cell_le_fl (Some x) (Fin t) = (of_int x \<le> t)"
| "cell_le_fl (Some x) PosInf = True"
| "cell_le_fl _ _ = False"

subsection \<open>Rows\<close>

text \<open>
  A data frame is the list of its rows. A cell that pandas holds as NaN or NaT is \<open>None\<close>.
  The two timestamps are the parsed values, in seconds since 1970-01-01T00:00:00. The
  numeric columns hold integers, as the file's format has them.
\<close>

record raw_row =
  PatientId :: "int option"
  AppointmentID :: "int option"
  Gender :: "string option"
  ScheduledDay :: "int option"
  AppointmentDay :: "int option"
  Age :: "int option"
  Neighbourhood :: "string option"
  Scholarship :: "int option"
  Hipertension :: "int option"
  Diabetes :: "int option"
  Alcoholism :: "int option"
  Handcap :: "int option"
  SMS_received :: "int option"
  No_show :: "string option"

record row = raw_row +
  DaysWaiting :: "int option"
  DayOfWeek :: "int option"
  DayOfWeekName :: "string option"
  AgeGroup :: "string option"
  NoShow_Binary :: int

section \<open>Loading and cleaning\<close>

text \<open>\<open>Timedelta.days\<close>: whole days, rounded towards minus infinity.\<close>

definition timedelta_days :: "int \<Rightarrow> int \<Rightarrow> int" where
  "timedelta_days a s = (a - s) div 86400"

text \<open>\<open>dt.dayofweek\<close>: Monday is 0, Sunday is 6; 1970-01-01 was a Thursday.\<close>

definition dayofweek :: "int \<Rightarrow> int" where
  "dayofweek t = (t div 86400 + 3) mod 7"

definition day_names :: "(int \<times> string) list" where
  "day_names = [(0, ''Monday''), (1, ''Tuesday''), (2, ''Wednesday''), (3, ''Thursday''),
                (4, ''Friday''), (5, ''Saturday''), (6, ''Sunday'')]"

text \<open>
  \<open>pd.cut(x, bins, labels, right=False)\<close>: the label of the first interval
  \<open>[bins[i], bins[i+1])\<close> that holds \<open>x\<close>, and a missing value where none does.
\<close>

fun pd_cut :: "int list \<Rightarrow> string list \<Rightarrow> int \<Rightarrow> string option" where
  "pd_cut (lo # hi # bins) (l # labels) x =
     (if lo \<le> x \<and> x < hi then Some l else pd_cut (hi # bins) labels x)"
| "pd_cut _ _ _ = None"

definition age_bins :: "int list" where
  "age_bins = [0, 18, 36, 56, 120]"

definition age_labels :: "string list" where
  "age_labels = [''Children (0-17)'', ''Young Adults (18-35)'', ''Middle-aged (36-55)'',
                 ''Seniors (56+)'']"

text \<open>
  The derived columns of one row. \<open>str.strip\<close> and \<open>str.title\<close> are the library's
  functions on Unicode text and are parameters here.
\<close>

definition add_features :: "(string \<Rightarrow> string) \<Rightarrow> (string \<Rightarrow> string) \<Rightarrow> raw_row \<Rightarrow> row" where
  "add_features strip title r =
     (let days = (case (AppointmentDay r, ScheduledDay r) of
                    (Some a, Some s) \<Rightarrow> Some (timedelta_days a s) | _ \<Rightarrow> None);
          dow = map_option dayofweek (AppointmentDay r);
          name = Option.bind dow (map_of day_names);
          grp = Option.bind (Age r) (pd_cut age_bins age_labels);
          nsb = (if No_show r = Some ''Yes'' then 1 else 0)
      in raw_row.extend (r\<lparr>Neighbourhood := map_option (title \<circ> strip) (Neighbourhood r)\<rparr>)
           (row.fields days dow name grp nsb))"

text \<open>\<open>DataFrame.dropna()\<close> keeps the rows with no missing cell.\<close>

definition notna :: "row \<Rightarrow> bool" where
  "notna r \<longleftrightarrow>
     PatientId r \<noteq> None \<and> AppointmentID r \<noteq> None \<and> Gender r \<noteq> None \<and>
     ScheduledDay r \<noteq> None \<and> AppointmentDay r \<noteq> None \<and> Age r \<noteq> None \<and>
     Neighbourhood r \<noteq> None \<and> Scholarship r \<noteq> None \<and> Hipertension r \<noteq> None \<and>
     Diabetes r \<noteq> None \<and> Alcoholism r \<noteq> None \<and> Handcap r \<noteq> None \<and>
     SMS_received r \<noteq> None \<and> No_show r \<noteq> None \<and> DaysWaiting r \<noteq> None \<and>
     DayOfWeek r \<noteq> None \<and> DayOfWeekName r \<noteq> None \<and> AgeGroup r \<noteq> None"

definition load_and_clean_data ::
  "(string \<Rightarrow> string) \<Rightarrow> (string \<Rightarrow> string) \<Rightarrow> raw_row list \<Rightarrow> row list" where
  "load_and_clean_data strip title csv =
     (let df = map (add_features strip title) csv;
          df = filter notna df;
          df = filter (\<lambda>r. cell_ge (DaysWaiting r) 0) df;
          df = filter (\<lambda>r. cell_ge (Age r) 0 \<and> cell_le (Age r) 120) df
      in df)"

section \<open>Summary statistics\<close>

record summary =
  total_appointments :: int
  show_rate :: fl
  no_show_rate :: fl
  avg_age :: fl
  avg_waiting_days :: fl
  gender_counts :: "string \<rightharpoonup> int"
  condition_stats :: "(string \<times> fl) list"

text \<open>\<open>Series.value_counts()\<close>, as the map from each value that occurs to its count.\<close>

definition value_counts :: "'a option list \<Rightarrow> 'a \<rightharpoonup> int" where
  "value_counts col = (\<lambda>v. if Some v \<in> set col then Some (int (count_list col (Some v))) else None)"

datatype error = ZeroDivisionError

text \<open>
  The dtype that \<open>read_csv\<close> gives the numeric columns of the file: a numeric one
  (int64, or float64 where a cell is missing) when the file has a data row, and object
  when it has the header only. Cleaning keeps the dtype, also when it drops every row.
\<close>

datatype dtype = Numeric | Object

definition column_dtype :: "raw_row list \<Rightarrow> dtype" where
  "column_dtype csv = (if csv = [] then Object else Numeric)"

text \<open>
  The quotient \<open>df[condition].sum() / len(df)\<close>. The sum of a numeric column is a numpy
  number and the division is numpy's. The sum of an object column is a Python integer
  (0 for no row), and Python's division raises on the divisor 0.
\<close>

definition sum_div_len :: "(real \<Rightarrow> real) \<Rightarrow> dtype \<Rightarrow> int \<Rightarrow> nat \<Rightarrow> error + fl" where
  "sum_div_len rnd dt s n =
     (case dt of
        Numeric \<Rightarrow> Inr (np_div rnd (Fin (of_int s)) (Fin (of_nat n)))
      | Object \<Rightarrow> (if n = 0 then Inl ZeroDivisionError
                   else Inr (Fin (rnd (of_int s / of_nat n)))))"

text \<open>The results of a loop that stops at the first error.\<close>

fun collect :: "(error + 'a) list \<Rightarrow> error + 'a list" where
  "collect [] = Inr []"
| "collect (x # xs) =
     (case x of
        Inl e \<Rightarrow> Inl e
      | Inr v \<Rightarrow> (case collect xs of Inl e \<Rightarrow> Inl e | Inr vs \<Rightarrow> Inr (v # vs)))"

text \<open>
  \<open>no_shows\<close> is the sum of the int64 column \<open>NoShow_Binary\<close>, a numpy integer for
  every frame, so the two quotients of the rates are numpy divisions. The loop over the
  conditions divides the sum of a column of the file, whose dtype \<open>dt\<close> is.
\<close>

definition calculate_summary_statistics ::
  "(real \<Rightarrow> real) \<Rightarrow> dtype \<Rightarrow> row list \<Rightarrow> error + summary" where
  "calculate_summary_statistics rnd dt df =
     (let total = int (length df);
          no_shows = sum_list (map NoShow_Binary df);
          show_rate = np_mul rnd (np_div rnd (Fin (of_int (total - no_shows)))
                                    (Fin (of_int total))) (Fin 100);
          no_show_rate = np_mul rnd (np_div rnd (Fin (of_int no_shows))
                                       (Fin (of_int total))) (Fin 100);
          avg_age = mean rnd (List.map_filter Age df);
          avg_waiting_days = mean rnd (List.map_filter DaysWaiting df);
          gender_counts = value_counts (map Gender df);
          conditions = [(''Hipertension'', Hipertension), (''Diabetes'', Diabetes),
                        (''Alcoholism'', Alcoholism)]
      in case collect
                (map (\<lambda>(condition, col).
                        case sum_div_len rnd dt (sum_list (List.map_filter col df)) (length df) of
                          Inl e \<Rightarrow> Inl e
                        | Inr q \<Rightarrow> Inr (condition, np_mul rnd q (Fin 100)))
                   conditions) of
           Inl e \<Rightarrow> Inl e
         | Inr stats \<Rightarrow>
             Inr \<lparr>total_appointments = total, show_rate = show_rate,
                  no_show_rate = no_show_rate, avg_age = avg_age,
                  avg_waiting_days = avg_waiting_days, gender_counts = gender_counts,
                  condition_stats = stats\<rparr>)"

section \<open>Aggregations\<close>

text \<open>
  Each chart function is modelled up to the table its figure is drawn from. The columns
  of a result table carry a prefix (\<open>ds_\<close>, \<open>cs_\<close>, \<open>nb_\<close>), as the name of a record
  field is global. \<open>groupby\<close> lists the keys that occur, missing ones left out, in
  sorted order.
\<close>

definition group_keys :: "('r \<Rightarrow> string option) \<Rightarrow> 'r list \<Rightarrow> string list" where
  "group_keys key df = sort (remdups (List.map_filter key df))"

subsection \<open>By day of week\<close>

record day_stat =
  ds_DayOfWeek :: string
  ds_TotalAppointments :: int
  ds_NoShows :: int
  ds_NoShowRate :: fl

text \<open>
  The code of a value in \<open>pd.Categorical(values, categories, ordered=True)\<close>: its
  position among the categories; a value that is no category sorts after all of them.
\<close>

fun category_code :: "'a list \<Rightarrow> 'a \<Rightarrow> nat" where
  "category_code [] x = 0"
| "category_code (c # cs) x = (if x = c then 0 else Suc (category_code cs x))"

definition day_order :: "string list" where
  "day_order = [''Monday'', ''Tuesday'', ''Wednesday'', ''Thursday'', ''Friday'', ''Saturday'',
                ''Sunday'']"

definition create_day_of_week_analysis :: "(real \<Rightarrow> real) \<Rightarrow> row list \<Rightarrow> day_stat list" where
  "create_day_of_week_analysis rnd df =
     (let day_stats =
            map (\<lambda>k. let g = filter (\<lambda>r. DayOfWeekName r = Some k) df
                      in \<lparr>ds_DayOfWeek = k,
                          ds_TotalAppointments = int (length (filter (\<lambda>r. AppointmentID r \<noteq> None) g)),
                          ds_NoShows = sum_list (map NoShow_Binary g),
                          ds_NoShowRate = mean rnd (map NoShow_Binary g)\<rparr>)
                (group_keys DayOfWeekName df);
          day_stats = map (\<lambda>s. s\<lparr>ds_NoShowRate := np_mul rnd (ds_NoShowRate s) (Fin 100)\<rparr>) day_stats
      in sort_key (\<lambda>s. category_code day_order (ds_DayOfWeek s)) day_stats)"

subsection \<open>Waiting time\<close>

definition create_waiting_time_analysis :: "row list \<Rightarrow> row list" where
  "create_waiting_time_analysis df =
     (let waiting_time_95th = quantile (List.map_filter DaysWaiting df) (95 / 100);
          df_filtered = filter (\<lambda>r. cell_le_fl (DaysWaiting r) waiting_time_95th) df
      in df_filtered)"

subsection \<open>Medical conditions\<close>

record condition_stat =
  cs_Condition :: string
  cs_Group :: string
  cs_NoShowRate :: fl

definition conditions :: "(string \<times> (row \<Rightarrow> int option)) list" where
  "conditions = [(''Hipertension'', Hipertension), (''Diabetes'', Diabetes),
                 (''Alcoholism'', Alcoholism), (''Handcap'', Handcap)]"

definition create_medical_conditions_analysis ::
  "(real \<Rightarrow> real) \<Rightarrow> row list \<Rightarrow> condition_stat list" where
  "create_medical_conditions_analysis rnd df =
     concat (map (\<lambda>(condition, col).
       let with_condition =
             np_mul rnd (mean rnd (map NoShow_Binary (filter (\<lambda>r. col r = Some 1) df))) (Fin 100);
           without_condition =
             np_mul rnd (mean rnd (map NoShow_Binary (filter (\<lambda>r. col r = Some 0) df))) (Fin 100)
       in [\<lparr>cs_Condition = condition, cs_Group = ''With Condition'',
             cs_NoShowRate = with_condition\<rparr>,
           \<lparr>cs_Condition = condition, cs_Group = ''Without Condition'',
             cs_NoShowRate = without_condition\<rparr>]) conditions)"

subsection \<open>Neighbourhoods\<close>

record neighborhood_stat =
  nb_Neighbourhood :: string
  nb_TotalAppointments :: int
  nb_NoShowRate :: fl

text \<open>
  \<open>DataFrame.nlargest(n, column)\<close>: the first \<open>n\<close> rows in descending order of the
  column, rows with equal values in their order of appearance.
\<close>

definition nlargest :: "nat \<Rightarrow> ('a \<Rightarrow> int) \<Rightarrow> 'a list \<Rightarrow> 'a list" where
  "nlargest n col xs = take n (sort_key (\<lambda>x. - col x) xs)"

definition neighborhood_stats :: "(real \<Rightarrow> real) \<Rightarrow> row list \<Rightarrow> neighborhood_stat list" where
  "neighborhood_stats rnd df =
     map (\<lambda>s. s\<lparr>nb_NoShowRate := np_mul rnd (nb_NoShowRate s) (Fin 100)\<rparr>)
       (map (\<lambda>k. let g = filter (\<lambda>r. Neighbourhood r = Some k) df
                 in \<lparr>nb_Neighbourhood = k,
                     nb_TotalAppointments = int (length (filter (\<lambda>r. AppointmentID r \<noteq> None) g)),
                     nb_NoShowRate = mean rnd (map NoShow_Binary g)\<rparr>)
            (group_keys Neighbourhood df))"

definition create_neighborhood_analysis ::
  "(real \<Rightarrow> real) \<Rightarrow> row list \<Rightarrow> nat \<Rightarrow> neighborhood_stat list" where
  "create_neighborhood_analysis rnd df top_n =
     (let top_neighborhoods = nlargest top_n nb_TotalAppointments (neighborhood_stats rnd df)
      in top_neighborhoods)"

text \<open>The default of \<open>top_n\<close>, which the layout's call leaves to the function.\<close>

definition top_n_default :: nat where
  "top_n_default = 15"

section \<open>Interactive filters\<close>

text \<open>The filtered frame that \<open>update_charts\<close> builds from the cleaned table \<open>df\<close>.\<close>

definition filtered_df :: "row list \<Rightarrow> string \<Rightarrow> string \<Rightarrow> int \<Rightarrow> row list" where
  "filtered_df df age_group gender max_waiting_days =
     (let f = df;
          f = (if age_group \<noteq> ''all'' then filter (\<lambda>r. AgeGroup r = Some age_group) f else f);
          f = (if gender \<noteq> ''all'' then filter (\<lambda>r. Gender r = Some gender) f else f);
          f = filter (\<lambda>r. cell_le (DaysWaiting r) max_waiting_days) f
      in f)"

section \<open>Sample data\<close>

text \<open>
  A scheduled-on-Wednesday, seen-on-Friday appointment and a no-show on the Monday after,
  in a file with four rows that cleaning drops.
\<close>

definition sample_raw :: raw_row where
  "sample_raw = \<lparr>PatientId = Some 29872499824296, AppointmentID = Some 5642903,
     Gender = Some ''F'', ScheduledDay = Some 1461751200, AppointmentDay = Some 1461888000,
     Age = Some 62, Neighbourhood = Some ''JARDIM DA PENHA'', Scholarship = Some 0,
     Hipertension = Some 1, Diabetes = Some 0, Alcoholism = Some 0, Handcap = Some 0,
     SMS_received = Some 0, No_show = Some ''No''\<rparr>"

definition sample_raw2 :: raw_row where
  "sample_raw2 = sample_raw\<lparr>AppointmentID := Some 5642904, Gender := Some ''M'',
     AppointmentDay := Some 1462147200, Age := Some 8, No_show := Some ''Yes''\<rparr>"

definition sample_csv :: "raw_row list" where
  "sample_csv = [sample_raw, sample_raw\<lparr>Age := Some 120\<rparr>, sample_raw\<lparr>Age := Some (- 1)\<rparr>,
     sample_raw\<lparr>ScheduledDay := Some 1461888001\<rparr>, sample_raw\<lparr>Gender := None\<rparr>, sample_raw2]"

definition sample_row :: row where
  "sample_row = add_features (\<lambda>s. s) (\<lambda>s. s) sample_raw"

definition sample_row2 :: row where
  "sample_row2 = add_features (\<lambda>s. s) (\<lambda>s. s) sample_raw2"

text \<open>Three neighbourhoods with 10, 50 and 30 appointments.\<close>

definition sample_volumes :: "row list" where
  "sample_volumes =
     replicate 10 (sample_row\<lparr>Neighbourhood := Some ''Centro''\<rparr>) @
     replicate 50 (sample_row\<lparr>Neighbourhood := Some ''Maria Ortiz''\<rparr>) @
     replicate 30 (sample_row\<lparr>Neighbourhood := Some ''Jardim Camburi''\<rparr>)"

text \<open>
  Two women who wait 0 and 10 days, the second a no-show, and a man who waits 100.
\<close>

definition sample_waits :: "row list" where
  "sample_waits =
     [sample_row\<lparr>DaysWaiting := Some 0\<rparr>,
      sample_row\<lparr>No_show := Some ''Yes'', DaysWaiting := Some 10, NoShow_Binary := 1\<rparr>,
      sample_row\<lparr>Gender := Some ''M'', DaysWaiting := Some 100\<rparr>]"

text \<open>A file whose only row has the age -1, which cleaning drops.\<close>

definition sample_dropped :: "raw_row list" where
  "sample_dropped = [sample_raw\<lparr>Age := Some (- 1)\<rparr>]"

section \<open>Properties of loading and cleaning\<close>

lemma sample_cleaned:
  "load_and_clean_data (\<lambda>s. s) (\<lambda>s. s) sample_csv = [sample_row, sample_row2]"
  by (simp add: load_and_clean_data_def sample_csv_def sample_row_def sample_row2_def
      sample_raw_def sample_raw2_def add_features_def notna_def Let_def age_bins_def
      age_labels_def day_names_def dayofweek_def timedelta_days_def raw_row.defs row.defs)

lemma cleaned_subset:
  "set (load_and_clean_data strip title csv) \<subseteq> add_features strip title ` set csv"
  by (auto simp: load_and_clean_data_def Let_def)

lemma cleaned_waiting:
  "r \<in> set (load_and_clean_data strip title csv) \<Longrightarrow> \<exists>d. DaysWaiting r = Some d"
  by (cases "DaysWaiting r") (auto simp: load_and_clean_data_def Let_def)

text \<open>
  C1: every row of the table that \<open>load_and_clean_data\<close> returns has no missing cell,
  a waiting time of at least 0 days and an age from 0 to 120.
\<close>

theorem cleaned_rows_valid:
  "\<forall>r\<in>set (load_and_clean_data strip title csv).
     notna r \<and> (\<exists>d a. DaysWaiting r = Some d \<and> 0 \<le> d \<and> Age r = Some a \<and> 0 \<le> a \<and> a \<le> 120)"
proof
  fix r
  assume "r \<in> set (load_and_clean_data strip title csv)"
  then show "notna r \<and>
      (\<exists>d a. DaysWaiting r = Some d \<and> 0 \<le> d \<and> Age r = Some a \<and> 0 \<le> a \<and> a \<le> 120)"
    unfolding load_and_clean_data_def Let_def
    by (cases "DaysWaiting r"; cases "Age r"; simp)
qed

theorem cleaned_rows_valid_witness:
  "sample_row2 \<in> set (load_and_clean_data (\<lambda>s. s) (\<lambda>s. s) sample_csv) \<and>
   notna sample_row2 \<and> DaysWaiting sample_row2 = Some 4 \<and> Age sample_row2 = Some 8"
proof -
  have m: "sample_row2 \<in> set (load_and_clean_data (\<lambda>s. s) (\<lambda>s. s) sample_csv)"
    by (simp add: sample_cleaned)
  have "notna sample_row2"
    using cleaned_rows_valid [of "\<lambda>s. s" "\<lambda>s. s" sample_csv] m by blast
  moreover have "DaysWaiting sample_row2 = Some 4 \<and> Age sample_row2 = Some 8"
    by (simp add: sample_row2_def sample_raw2_def sample_raw_def add_features_def Let_def
        timedelta_days_def raw_row.defs row.defs)
  ultimately show ?thesis using m by blast
qed

text \<open>The age groups of the ages the bins cover.\<close>

lemma age_group_cases:
  "pd_cut age_bins age_labels a =
     (if 0 \<le> a \<and> a < 18 then Some ''Children (0-17)''
      else if 18 \<le> a \<and> a < 36 then Some ''Young Adults (18-35)''
      else if 36 \<le> a \<and> a < 56 then Some ''Middle-aged (36-55)''
      else if 56 \<le> a \<and> a < 120 then Some ''Seniors (56+)''
      else None)"
  by (simp add: age_bins_def age_labels_def)

text \<open>
  C2: the age 120, which the cleaning step accepts as valid, falls in no age group: the
  last bin is \<open>[56, 120)\<close>. The row then holds a missing cell and is dropped.
\<close>

theorem age_120_has_no_group:
  "pd_cut age_bins age_labels 120 = None \<and>
   AgeGroup (add_features (\<lambda>s. s) (\<lambda>s. s) (sample_raw\<lparr>Age := Some 120\<rparr>)) = None \<and>
   load_and_clean_data (\<lambda>s. s) (\<lambda>s. s) [sample_raw\<lparr>Age := Some 120\<rparr>] = []"
  by (simp add: load_and_clean_data_def sample_raw_def add_features_def notna_def Let_def
      age_bins_def age_labels_def raw_row.defs row.defs)

text \<open>
  C4: \<open>NoShow_Binary\<close> is 1 when the outcome of the record is a no-show, which the file
  marks with \<open>Yes\<close> in its column \<open>No-show\<close>, and 0 otherwise, for every row of the file
  and so for every row of the cleaned table.
\<close>

theorem no_show_binary_yes:
  "NoShow_Binary (add_features strip title raw) = (if No_show raw = Some ''Yes'' then 1 else 0) \<and>
   (\<forall>r\<in>set (load_and_clean_data strip title csv).
      NoShow_Binary r = (if No_show r = Some ''Yes'' then 1 else 0))"
proof
  show "NoShow_Binary (add_features strip title raw) = (if No_show raw = Some ''Yes'' then 1 else 0)"
    by (simp add: add_features_def Let_def raw_row.defs row.defs)
  have "NoShow_Binary (add_features strip title x) =
      (if No_show (add_features strip title x) = Some ''Yes'' then 1 else 0)" for x
    by (simp add: add_features_def Let_def raw_row.defs row.defs)
  then show "\<forall>r\<in>set (load_and_clean_data strip title csv).
      NoShow_Binary r = (if No_show r = Some ''Yes'' then 1 else 0)"
    using cleaned_subset [of strip title csv] by blast
qed

theorem no_show_binary_yes_witness:
  "sample_row2 \<in> set (load_and_clean_data (\<lambda>s. s) (\<lambda>s. s) sample_csv) \<and>
   No_show sample_row2 = Some ''Yes'' \<and> NoShow_Binary sample_row2 = 1"
proof -
  have m: "sample_row2 \<in> set (load_and_clean_data (\<lambda>s. s) (\<lambda>s. s) sample_csv)"
    by (simp add: sample_cleaned)
  have y: "No_show sample_row2 = Some ''Yes''"
    by (simp add: sample_row2_def sample_raw2_def sample_raw_def add_features_def Let_def
        raw_row.defs row.defs)
  have "NoShow_Binary sample_row2 = (if No_show sample_row2 = Some ''Yes'' then 1 else 0)"
    using no_show_binary_yes [of "\<lambda>s. s" "\<lambda>s. s" sample_raw sample_csv] m by blast
  then show ?thesis using m y by simp
qed

section \<open>Properties of the summary statistics\<close>

lemma cleaned_binary:
  assumes "r \<in> set (load_and_clean_data strip title csv)"
  shows "NoShow_Binary r = 0 \<or> NoShow_Binary r = 1"
proof -
  obtain x where "r = add_features strip title x"
    using assms cleaned_subset [of strip title csv] by blast
  then show ?thesis by (simp add: add_features_def Let_def raw_row.defs row.defs)
qed

lemma sum_binary_bounds:
  "(\<And>r. r \<in> set df \<Longrightarrow> f r = 0 \<or> f r = (1::int)) \<Longrightarrow>
     0 \<le> sum_list (map f df) \<and> sum_list (map f df) \<le> int (length df)"
proof (induction df)
  case Nil
  then show ?case by simp
next
  case (Cons a df)
  then have "f a = 0 \<or> f a = 1"
    and "0 \<le> sum_list (map f df) \<and> sum_list (map f df) \<le> int (length df)"
    by auto
  then show ?case by auto
qed

text \<open>A rounding of relative error at most \<open>u\<close>, applied to a quotient and to its percentage.\<close>

lemma rnd_nonneg_bound:
  assumes "\<forall>x::real. \<bar>rnd x - x\<bar> \<le> u * \<bar>x\<bar>"
  shows "0 \<le> u"
proof -
  have "\<bar>rnd 1 - 1\<bar> \<le> u * \<bar>1::real\<bar>" using assms by blast
  then show ?thesis by simp
qed

lemma rnd_percent_error:
  assumes r: "\<forall>x::real. \<bar>rnd x - x\<bar> \<le> u * \<bar>x\<bar>" and x: "0 \<le> (x::real)"
  shows "\<bar>rnd (rnd x * 100) - 100 * x\<bar> \<le> 100 * x * (2 * u + u\<^sup>2)"
proof -
  have u: "0 \<le> u" using r by (rule rnd_nonneg_bound)
  have a: "\<bar>rnd x - x\<bar> \<le> u * x" using r x abs_of_nonneg [of x] by metis
  have b: "\<bar>rnd (rnd x * 100) - rnd x * 100\<bar> \<le> u * \<bar>rnd x * 100\<bar>" using r by blast
  have c: "\<bar>rnd x\<bar> \<le> x + u * x" using a x by linarith
  have "u * \<bar>rnd x * 100\<bar> = u * (100 * \<bar>rnd x\<bar>)" by (simp add: abs_mult)
  also have "\<dots> \<le> u * (100 * (x + u * x))" using c u by (intro mult_left_mono) auto
  finally have d: "u * \<bar>rnd x * 100\<bar> \<le> u * (100 * (x + u * x))" .
  have e: "rnd (rnd x * 100) - 100 * x = (rnd (rnd x * 100) - rnd x * 100) + 100 * (rnd x - x)"
    by simp
  have "\<bar>rnd (rnd x * 100) - 100 * x\<bar>
      \<le> \<bar>rnd (rnd x * 100) - rnd x * 100\<bar> + \<bar>100 * (rnd x - x)\<bar>"
    unfolding e by (rule abs_triangle_ineq)
  also have "\<dots> = \<bar>rnd (rnd x * 100) - rnd x * 100\<bar> + 100 * \<bar>rnd x - x\<bar>"
    by (simp only: abs_mult abs_numeral)
  also have "\<dots> \<le> u * (100 * (x + u * x)) + 100 * (u * x)"
  proof (rule add_mono)
    show "\<bar>rnd (rnd x * 100) - rnd x * 100\<bar> \<le> u * (100 * (x + u * x))"
      using b d by (rule order_trans)
    show "100 * \<bar>rnd x - x\<bar> \<le> 100 * (u * x)" using a by simp
  qed
  also have "\<dots> = 100 * x * (2 * u + u\<^sup>2)" by (simp add: algebra_simps power2_eq_square)
  finally show ?thesis .
qed

lemma summary_rates:
  assumes "df \<noteq> []"
  shows "\<exists>s. calculate_summary_statistics rnd dt df = Inr s \<and>
    show_rate s = Fin (rnd (rnd (real_of_int (int (length df) - sum_list (map NoShow_Binary df)) /
                                  real_of_int (int (length df))) * 100)) \<and>
    no_show_rate s = Fin (rnd (rnd (real_of_int (sum_list (map NoShow_Binary df)) /
                                     real_of_int (int (length df))) * 100))"
  using assms
  by (cases dt) (simp_all add: calculate_summary_statistics_def sum_div_len_def Let_def)

text \<open>
  C3: on a non-empty cleaned table the function returns a record, both rates are finite
  numbers, and with a rounding of relative error at most \<open>u\<close> their sum is within
  \<open>100 * (2 * u + u\<^sup>2)\<close> of 100; with exact arithmetic (\<open>u = 0\<close>) it is 100.
\<close>

theorem rates_sum_to_100:
  assumes r: "\<forall>x::real. \<bar>rnd x - x\<bar> \<le> u * \<bar>x\<bar>"
    and df: "df = load_and_clean_data strip title csv" and ne: "df \<noteq> []"
  shows "\<exists>s a b. calculate_summary_statistics rnd (column_dtype csv) df = Inr s \<and>
               show_rate s = Fin a \<and> no_show_rate s = Fin b \<and>
               \<bar>a + b - 100\<bar> \<le> 100 * (2 * u + u\<^sup>2)"
proof -
  define n where "n = int (length df)"
  define k where "k = sum_list (map NoShow_Binary df)"
  have n: "0 < n" using ne by (simp add: n_def)
  have k: "0 \<le> k \<and> k \<le> n"
    unfolding k_def n_def using cleaned_binary df by (intro sum_binary_bounds) blast
  define x where "x = real_of_int (n - k) / real_of_int n"
  define y where "y = real_of_int k / real_of_int n"
  have x: "0 \<le> x" and y: "0 \<le> y" using n k by (simp_all add: x_def y_def)
  have xy: "x + y = 1" using n by (simp add: x_def y_def field_simps)
  obtain s where ret: "calculate_summary_statistics rnd (column_dtype csv) df = Inr s"
    and s: "show_rate s = Fin (rnd (rnd x * 100))"
    and t: "no_show_rate s = Fin (rnd (rnd y * 100))"
    using summary_rates [OF ne, of rnd "column_dtype csv"]
    unfolding x_def y_def n_def k_def by blast
  have ex: "\<bar>rnd (rnd x * 100) - 100 * x\<bar> \<le> 100 * x * (2 * u + u\<^sup>2)"
    using r x by (rule rnd_percent_error)
  have ey: "\<bar>rnd (rnd y * 100) - 100 * y\<bar> \<le> 100 * y * (2 * u + u\<^sup>2)"
    using r y by (rule rnd_percent_error)
  have "100 * x * (2 * u + u\<^sup>2) + 100 * y * (2 * u + u\<^sup>2) = 100 * (x + y) * (2 * u + u\<^sup>2)"
    by (simp add: algebra_simps)
  then have tot: "100 * x * (2 * u + u\<^sup>2) + 100 * y * (2 * u + u\<^sup>2) = 100 * (2 * u + u\<^sup>2)"
    using xy by simp
  have "100 * x + 100 * y = 100" using xy by linarith
  then have "\<bar>rnd (rnd x * 100) + rnd (rnd y * 100) - 100\<bar> \<le> 100 * (2 * u + u\<^sup>2)"
    using ex ey tot by linarith
  then show ?thesis using ret s t by blast
qed

theorem rates_sum_to_100_witness:
  "(\<forall>x::real. \<bar>x * (1001 / 1000) - x\<bar> \<le> (1 / 1000) * \<bar>x\<bar>) \<and>
   load_and_clean_data (\<lambda>s. s) (\<lambda>s. s) sample_csv \<noteq> [] \<and>
   (\<exists>s a b. calculate_summary_statistics (\<lambda>x. x * (1001 / 1000)) (column_dtype sample_csv)
              (load_and_clean_data (\<lambda>s. s) (\<lambda>s. s) sample_csv) = Inr s \<and>
          show_rate s = Fin a \<and> no_show_rate s = Fin b \<and>
          \<bar>a + b - 100\<bar> \<le> 100 * (2 * (1 / 1000) + (1 / 1000)\<^sup>2))"
proof -
  have h: "\<forall>x::real. \<bar>x * (1001 / 1000) - x\<bar> \<le> (1 / 1000) * \<bar>x\<bar>"
  proof
    fix x :: real
    have "x * (1001 / 1000) - x = (1 / 1000) * x" by simp
    then show "\<bar>x * (1001 / 1000) - x\<bar> \<le> (1 / 1000) * \<bar>x\<bar>" by (simp add: abs_mult)
  qed
  have ne: "load_and_clean_data (\<lambda>s. s) (\<lambda>s. s) sample_csv \<noteq> []"
    by (simp add: sample_cleaned)
  show ?thesis
    using rates_sum_to_100 [OF h refl ne] h ne by blast
qed

lemma sample_dropped_cleaned: "load_and_clean_data (\<lambda>s. s) (\<lambda>s. s) sample_dropped = []"
  by (simp add: load_and_clean_data_def sample_dropped_def sample_raw_def add_features_def
      notna_def Let_def age_bins_def age_labels_def raw_row.defs row.defs)

lemma summary_empty_numeric:
  "calculate_summary_statistics rnd Numeric [] =
     Inr \<lparr>total_appointments = 0, show_rate = NaN, no_show_rate = NaN, avg_age = NaN,
          avg_waiting_days = NaN, gender_counts = Map.empty,
          condition_stats = [(''Hipertension'', NaN), (''Diabetes'', NaN), (''Alcoholism'', NaN)]\<rparr>"
  by (simp add: calculate_summary_statistics_def sum_div_len_def Let_def mean_def
      value_counts_def List.map_filter_simps)

lemma summary_empty_object:
  "calculate_summary_statistics rnd Object [] = Inl ZeroDivisionError"
  by (simp add: calculate_summary_statistics_def sum_div_len_def Let_def)

text \<open>
  C10, as stated, fails: the cleaned table of a file whose only row is dropped is empty,
  and on it \<open>calculate_summary_statistics\<close> returns a record. Its columns are numeric,
  every quotient is a numpy division, and \<open>0 / 0\<close> is NaN there.
\<close>

theorem empty_table_counterexample:
  "load_and_clean_data (\<lambda>s. s) (\<lambda>s. s) sample_dropped = [] \<and>
   calculate_summary_statistics (\<lambda>x. x) (column_dtype sample_dropped)
     (load_and_clean_data (\<lambda>s. s) (\<lambda>s. s) sample_dropped) =
     Inr \<lparr>total_appointments = 0, show_rate = NaN, no_show_rate = NaN, avg_age = NaN,
          avg_waiting_days = NaN, gender_counts = Map.empty,
          condition_stats = [(''Hipertension'', NaN), (''Diabetes'', NaN), (''Alcoholism'', NaN)]\<rparr>"
proof -
  have "column_dtype sample_dropped = Numeric"
    by (simp add: column_dtype_def sample_dropped_def)
  then show ?thesis by (simp add: sample_dropped_cleaned summary_empty_numeric)
qed

text \<open>
  C10, amended: \<open>calculate_summary_statistics\<close> is not total on the cleaned tables. On
  the empty table of a file with the header only it raises ZeroDivisionError, in the loop
  over the conditions. On the empty table of a file whose rows are all dropped it returns
  a record: the count is 0 and both rates, both means and the three condition percentages
  are NaN. On a non-empty cleaned table it returns a record whose rates are finite numbers.
\<close>

theorem summary_of_empty_table:
  "calculate_summary_statistics rnd (column_dtype []) (load_and_clean_data strip title []) =
     Inl ZeroDivisionError \<and>
   (csv \<noteq> [] \<and> load_and_clean_data strip title csv = [] \<longrightarrow>
    calculate_summary_statistics rnd (column_dtype csv) (load_and_clean_data strip title csv) =
      Inr \<lparr>total_appointments = 0, show_rate = NaN, no_show_rate = NaN, avg_age = NaN,
           avg_waiting_days = NaN, gender_counts = Map.empty,
           condition_stats =
             [(''Hipertension'', NaN), (''Diabetes'', NaN), (''Alcoholism'', NaN)]\<rparr>) \<and>
   (load_and_clean_data strip title file \<noteq> [] \<longrightarrow>
    (\<exists>s a b. calculate_summary_statistics rnd (column_dtype file)
               (load_and_clean_data strip title file) = Inr s \<and>
             show_rate s = Fin a \<and> no_show_rate s = Fin b))"
proof (intro conjI impI)
  show "calculate_summary_statistics rnd (column_dtype []) (load_and_clean_data strip title []) =
      Inl ZeroDivisionError"
    by (simp add: column_dtype_def load_and_clean_data_def summary_empty_object)
next
  assume "csv \<noteq> [] \<and> load_and_clean_data strip title csv = []"
  then show "calculate_summary_statistics rnd (column_dtype csv)
      (load_and_clean_data strip title csv) =
      Inr \<lparr>total_appointments = 0, show_rate = NaN, no_show_rate = NaN, avg_age = NaN,
           avg_waiting_days = NaN, gender_counts = Map.empty,
           condition_stats =
             [(''Hipertension'', NaN), (''Diabetes'', NaN), (''Alcoholism'', NaN)]\<rparr>"
    by (simp add: column_dtype_def summary_empty_numeric)
next
  assume "load_and_clean_data strip title file \<noteq> []"
  then show "\<exists>s a b. calculate_summary_statistics rnd (column_dtype file)
      (load_and_clean_data strip title file) = Inr s \<and>
      show_rate s = Fin a \<and> no_show_rate s = Fin b"
    using summary_rates [of "load_and_clean_data strip title file" rnd "column_dtype file"]
    by blast
qed

theorem summary_of_empty_table_witness:
  "sample_dropped \<noteq> [] \<and> load_and_clean_data (\<lambda>s. s) (\<lambda>s. s) sample_dropped = [] \<and>
   calculate_summary_statistics (\<lambda>x. x) (column_dtype sample_dropped)
     (load_and_clean_data (\<lambda>s. s) (\<lambda>s. s) sample_dropped) =
     Inr \<lparr>total_appointments = 0, show_rate = NaN, no_show_rate = NaN, avg_age = NaN,
          avg_waiting_days = NaN, gender_counts = Map.empty,
          condition_stats = [(''Hipertension'', NaN), (''Diabetes'', NaN), (''Alcoholism'', NaN)]\<rparr> \<and>
   load_and_clean_data (\<lambda>s. s) (\<lambda>s. s) sample_csv \<noteq> [] \<and>
   (\<exists>s a b. calculate_summary_statistics (\<lambda>x. x) (column_dtype sample_csv)
              (load_and_clean_data (\<lambda>s. s) (\<lambda>s. s) sample_csv) = Inr s \<and>
            show_rate s = Fin a \<and> no_show_rate s = Fin b)"
proof -
  have 1: "sample_dropped \<noteq> []" by (simp add: sample_dropped_def)
  have 2: "load_and_clean_data (\<lambda>s. s) (\<lambda>s. s) sample_csv \<noteq> []"
    by (simp add: sample_cleaned)
  show ?thesis
    using summary_of_empty_table [of "\<lambda>x. x" "\<lambda>s. s" "\<lambda>s. s" sample_dropped sample_csv]
      1 2 sample_dropped_cleaned
    by blast
qed

section \<open>Properties of the aggregations\<close>

subsection \<open>Grouping and sorting\<close>

lemma insort_key_map:
  "insort_key f (g x) (map g xs) = map g (insort_key (\<lambda>a. f (g a)) x xs)"
  by (induction xs) simp_all

lemma sort_key_map: "sort_key f (map g xs) = map g (sort_key (\<lambda>a. f (g a)) xs)"
  by (induction xs) (simp_all add: insort_key_map)

lemma set_map_filter: "set (List.map_filter f xs) = {y. \<exists>x\<in>set xs. f x = Some y}"
  by (induction xs) (auto simp: List.map_filter_simps split: option.splits)

lemma set_group_keys: "set (group_keys key df) = {k. Some k \<in> set (map key df)}"
  by (force simp: group_keys_def set_map_filter)

lemma distinct_group_keys: "distinct (group_keys key df)"
  by (simp add: group_keys_def)

subsection \<open>Day of week\<close>

lemma day_names_order: "map_of day_names i = Some n \<Longrightarrow> n \<in> set day_order"
  by (auto simp: day_names_def day_order_def split: if_splits)

lemma add_features_day:
  "DayOfWeekName (add_features strip title r) = Some n \<Longrightarrow> n \<in> set day_order"
  by (auto simp: add_features_def Let_def raw_row.defs row.defs Option.bind_eq_Some_conv
      dest: day_names_order)

lemma cleaned_day:
  "r \<in> set (load_and_clean_data strip title csv) \<Longrightarrow> DayOfWeekName r = Some n \<Longrightarrow>
     n \<in> set day_order"
  using cleaned_subset add_features_day by blast

lemma day_code_inj: "inj_on (category_code day_order) (set day_order)"
  by (simp add: day_order_def)

lemma day_code_sorted: "sorted (map (category_code day_order) day_order)"
  by (simp add: day_order_def)

lemma day_order_distinct: "distinct day_order"
  by (simp add: day_order_def)

lemma sorted_map_filter: "sorted (map f xs) \<Longrightarrow> sorted (map f (filter P xs))"
  by (induction xs) auto

text \<open>Sorting distinct weekday names by their category code lists them in canonical order.\<close>

lemma sort_days:
  assumes d: "distinct ks" and s: "set ks \<subseteq> set day_order"
  shows "sort_key (category_code day_order) ks = filter (\<lambda>d. d \<in> set ks) day_order"
proof -
  let ?c = "category_code day_order"
  let ?xs = "sort_key ?c ks" and ?ys = "filter (\<lambda>d. d \<in> set ks) day_order"
  have i: "inj_on ?c (set ks)" using day_code_inj s by (rule inj_on_subset)
  have 1: "sorted (map ?c ?xs)" by simp
  have 2: "distinct (map ?c ?xs)" using d i by (simp add: distinct_map)
  have 3: "sorted (map ?c ?ys)" using day_code_sorted by (rule sorted_map_filter)
  have 4: "distinct (map ?c ?ys)"
    using day_order_distinct day_code_inj by (auto simp: distinct_map intro: inj_on_subset)
  have 5: "set ?xs = set ?ys" using s by auto
  then have "set (map ?c ?xs) = set (map ?c ?ys)" by simp
  with 1 2 3 4 have "map ?c ?xs = map ?c ?ys" by (intro sorted_distinct_set_unique)
  moreover have "inj_on ?c (set ?xs \<union> set ?ys)" using i 5 by simp
  ultimately show ?thesis by (rule map_inj_on)
qed

lemma day_column:
  "map ds_DayOfWeek (create_day_of_week_analysis rnd df) =
     sort_key (category_code day_order) (group_keys DayOfWeekName df)"
  by (simp add: create_day_of_week_analysis_def Let_def sort_key_map comp_def)

text \<open>
  C5, as stated, fails: the output has a row only for a weekday on which some appointment
  falls. The cleaned table of one Friday appointment gives the single row of Friday.
\<close>

theorem day_of_week_counterexample:
  "map ds_DayOfWeek (create_day_of_week_analysis (\<lambda>x. x)
      (load_and_clean_data (\<lambda>s. s) (\<lambda>s. s) [sample_raw])) = [''Friday'']"
  by (simp add: create_day_of_week_analysis_def group_keys_def load_and_clean_data_def
      sample_raw_def add_features_def notna_def Let_def age_bins_def age_labels_def
      day_names_def dayofweek_def timedelta_days_def raw_row.defs row.defs
      List.map_filter_simps)

text \<open>
  C5, amended: for every cleaned table, in whatever order its rows are, the day column of
  the output lists the weekdays on which some appointment falls, each once, in the
  order Monday to Sunday. It begins with Monday when some appointment falls on a Monday
  and ends with Sunday when some appointment falls on a Sunday.
\<close>

theorem day_of_week_order:
  "map ds_DayOfWeek (create_day_of_week_analysis rnd (load_and_clean_data strip title csv)) =
     filter (\<lambda>d. Some d \<in> set (map DayOfWeekName (load_and_clean_data strip title csv)))
       day_order"
proof -
  let ?df = "load_and_clean_data strip title csv"
  have "set (group_keys DayOfWeekName ?df) \<subseteq> set day_order"
    using cleaned_day by (auto simp: set_group_keys)
  then have "sort_key (category_code day_order) (group_keys DayOfWeekName ?df) =
      filter (\<lambda>d. d \<in> set (group_keys DayOfWeekName ?df)) day_order"
    using distinct_group_keys by (intro sort_days)
  then show ?thesis by (simp add: day_column set_group_keys)
qed

subsection \<open>Waiting time\<close>

lemma cell_le_fl_iff:
  "cell_le_fl c (Fin t) \<longleftrightarrow> (\<exists>d. c = Some d \<and> real_of_int d \<le> t)"
  by (cases c) simp_all

lemma waiting_eq:
  "create_waiting_time_analysis df =
     filter (\<lambda>r. \<exists>d t. DaysWaiting r = Some d \<and>
                   quantile (List.map_filter DaysWaiting df) (95 / 100) = Fin t \<and>
                   real_of_int d \<le> t) df"
proof (cases "List.map_filter DaysWaiting df = []")
  case True
  then show ?thesis by (simp add: create_waiting_time_analysis_def Let_def quantile_def)
next
  case False
  then obtain t where "quantile (List.map_filter DaysWaiting df) (95 / 100) = Fin t"
    by (simp add: quantile_def Let_def)
  then show ?thesis by (simp add: create_waiting_time_analysis_def Let_def cell_le_fl_iff)
qed

lemma waiting_one:
  "create_waiting_time_analysis [sample_row\<lparr>DaysWaiting := Some 100\<rparr>] =
     [sample_row\<lparr>DaysWaiting := Some 100\<rparr>]"
  by (simp add: create_waiting_time_analysis_def Let_def List.map_filter_simps quantile_def)

lemma waiting_two:
  "create_waiting_time_analysis
     [sample_row\<lparr>DaysWaiting := Some 0\<rparr>, sample_row\<lparr>DaysWaiting := Some 100\<rparr>] =
     [sample_row\<lparr>DaysWaiting := Some 0\<rparr>]"
  by (simp add: create_waiting_time_analysis_def Let_def List.map_filter_simps quantile_def)

lemma waiting_not_constant:
  "\<not> (\<exists>c::real. \<forall>df. create_waiting_time_analysis df =
        filter (\<lambda>r. \<exists>d. DaysWaiting r = Some d \<and> real_of_int d \<le> c) df)"
proof
  assume "\<exists>c::real. \<forall>df. create_waiting_time_analysis df =
        filter (\<lambda>r. \<exists>d. DaysWaiting r = Some d \<and> real_of_int d \<le> c) df"
  then obtain c :: real where c: "\<And>df. create_waiting_time_analysis df =
        filter (\<lambda>r. \<exists>d. DaysWaiting r = Some d \<and> real_of_int d \<le> c) df" by blast
  have "100 \<le> c" using c [of "[sample_row\<lparr>DaysWaiting := Some 100\<rparr>]"]
    by (simp add: waiting_one split: if_splits)
  then show False
    using c [of "[sample_row\<lparr>DaysWaiting := Some 0\<rparr>, sample_row\<lparr>DaysWaiting := Some 100\<rparr>]"]
    by (simp add: waiting_two split: if_splits)
qed

lemma sample_gender: "Gender sample_row = Some ''F''"
  by (simp add: sample_row_def sample_raw_def add_features_def Let_def raw_row.defs row.defs)

lemma sample_waits_view:
  "filtered_df sample_waits ''all'' ''F'' 1000 =
     [sample_row\<lparr>DaysWaiting := Some 0\<rparr>,
      sample_row\<lparr>No_show := Some ''Yes'', DaysWaiting := Some 10, NoShow_Binary := 1\<rparr>]"
  by (simp add: filtered_df_def sample_waits_def sample_gender)

text \<open>
  C8: the function keeps the rows of its argument whose waiting time is at most the
  0.95-quantile of the argument's own waiting times; so on a filtered frame the threshold
  is the quantile of the filtered frame. No fixed threshold gives the same function. With
  the sample, the quantile of the full table is 91 and that of the women's rows is 9.5:
  of the women's rows the function keeps the row of 0 days only, where the threshold of
  the full table would keep both.
\<close>

theorem waiting_time_percentile:
  "create_waiting_time_analysis df =
     filter (\<lambda>r. \<exists>d t. DaysWaiting r = Some d \<and>
                   quantile (List.map_filter DaysWaiting df) (95 / 100) = Fin t \<and>
                   real_of_int d \<le> t) df \<and>
   create_waiting_time_analysis (filtered_df cleaned age_group gender m) =
     filter (\<lambda>r. \<exists>d t. DaysWaiting r = Some d \<and>
                   quantile (List.map_filter DaysWaiting (filtered_df cleaned age_group gender m))
                     (95 / 100) = Fin t \<and>
                   real_of_int d \<le> t) (filtered_df cleaned age_group gender m) \<and>
   \<not> (\<exists>c::real. \<forall>df. create_waiting_time_analysis df =
        filter (\<lambda>r. \<exists>d. DaysWaiting r = Some d \<and> real_of_int d \<le> c) df) \<and>
   quantile (List.map_filter DaysWaiting sample_waits) (95 / 100) = Fin 91 \<and>
   quantile (List.map_filter DaysWaiting (filtered_df sample_waits ''all'' ''F'' 1000)) (95 / 100) =
     Fin (19 / 2) \<and>
   create_waiting_time_analysis (filtered_df sample_waits ''all'' ''F'' 1000) =
     [sample_row\<lparr>DaysWaiting := Some 0\<rparr>] \<and>
   filter (\<lambda>r. cell_le_fl (DaysWaiting r) (Fin 91)) (filtered_df sample_waits ''all'' ''F'' 1000) =
     filtered_df sample_waits ''all'' ''F'' 1000"
proof (intro conjI)
  show "create_waiting_time_analysis df =
     filter (\<lambda>r. \<exists>d t. DaysWaiting r = Some d \<and>
                   quantile (List.map_filter DaysWaiting df) (95 / 100) = Fin t \<and>
                   real_of_int d \<le> t) df"
    by (rule waiting_eq)
  show "create_waiting_time_analysis (filtered_df cleaned age_group gender m) =
     filter (\<lambda>r. \<exists>d t. DaysWaiting r = Some d \<and>
                   quantile (List.map_filter DaysWaiting (filtered_df cleaned age_group gender m))
                     (95 / 100) = Fin t \<and>
                   real_of_int d \<le> t) (filtered_df cleaned age_group gender m)"
    by (rule waiting_eq)
  show "\<not> (\<exists>c::real. \<forall>df. create_waiting_time_analysis df =
        filter (\<lambda>r. \<exists>d. DaysWaiting r = Some d \<and> real_of_int d \<le> c) df)"
    by (rule waiting_not_constant)
  show "quantile (List.map_filter DaysWaiting sample_waits) (95 / 100) = Fin 91"
    by (simp add: sample_waits_def List.map_filter_simps quantile_def Let_def)
  show "quantile (List.map_filter DaysWaiting (filtered_df sample_waits ''all'' ''F'' 1000))
      (95 / 100) = Fin (19 / 2)"
    by (simp add: sample_waits_view List.map_filter_simps quantile_def Let_def)
  show "create_waiting_time_analysis (filtered_df sample_waits ''all'' ''F'' 1000) =
      [sample_row\<lparr>DaysWaiting := Some 0\<rparr>]"
    by (simp add: sample_waits_view create_waiting_time_analysis_def
        List.map_filter_simps quantile_def Let_def)
  show "filter (\<lambda>r. cell_le_fl (DaysWaiting r) (Fin 91))
      (filtered_df sample_waits ''all'' ''F'' 1000) = filtered_df sample_waits ''all'' ''F'' 1000"
    by (simp add: sample_waits_view)
qed

subsection \<open>Medical conditions\<close>

lemma mean_nil: "mean rnd [] = NaN"
  by (simp add: mean_def)

lemma conditions_functional:
  "(c, col) \<in> set conditions \<Longrightarrow> (c, col') \<in> set conditions \<Longrightarrow> col = col'"
  by (auto simp: conditions_def)

lemma medical_rows:
  "set (create_medical_conditions_analysis rnd df) =
     (\<Union>(c, col)\<in>set conditions.
        {\<lparr>cs_Condition = c, cs_Group = ''With Condition'',
           cs_NoShowRate = np_mul rnd (mean rnd (map NoShow_Binary (filter (\<lambda>r. col r = Some 1) df))) (Fin 100)\<rparr>,
         \<lparr>cs_Condition = c, cs_Group = ''Without Condition'',
           cs_NoShowRate = np_mul rnd (mean rnd (map NoShow_Binary (filter (\<lambda>r. col r = Some 0) df))) (Fin 100)\<rparr>})"
  unfolding create_medical_conditions_analysis_def Let_def by (simp add: case_prod_unfold)

lemma empty_group:
  "\<not> (\<exists>r\<in>set df. col r = Some v) \<Longrightarrow>
     np_mul rnd (mean rnd (map NoShow_Binary (filter (\<lambda>r. col r = Some v) df))) (Fin 100) = NaN"
  by (simp add: filter_empty_conv [THEN iffD2] mean_nil)

text \<open>
  C9: for each of the four conditions, when no row has the condition (or no row is
  without it), the rate of that group in the output is NaN, and no row of the output
  gives that group another rate.
\<close>

theorem empty_group_rate_nan:
  assumes c: "(c, col) \<in> set conditions"
  shows "(\<not> (\<exists>r\<in>set df. col r = Some 1) \<longrightarrow>
            \<lparr>cs_Condition = c, cs_Group = ''With Condition'', cs_NoShowRate = NaN\<rparr>
              \<in> set (create_medical_conditions_analysis rnd df) \<and>
            (\<forall>s\<in>set (create_medical_conditions_analysis rnd df).
               cs_Condition s = c \<and> cs_Group s = ''With Condition'' \<longrightarrow> cs_NoShowRate s = NaN)) \<and>
         (\<not> (\<exists>r\<in>set df. col r = Some 0) \<longrightarrow>
            \<lparr>cs_Condition = c, cs_Group = ''Without Condition'', cs_NoShowRate = NaN\<rparr>
              \<in> set (create_medical_conditions_analysis rnd df) \<and>
            (\<forall>s\<in>set (create_medical_conditions_analysis rnd df).
               cs_Condition s = c \<and> cs_Group s = ''Without Condition'' \<longrightarrow> cs_NoShowRate s = NaN))"
proof (intro conjI impI ballI)
  assume e: "\<not> (\<exists>r\<in>set df. col r = Some 1)"
  show "\<lparr>cs_Condition = c, cs_Group = ''With Condition'', cs_NoShowRate = NaN\<rparr>
      \<in> set (create_medical_conditions_analysis rnd df)"
    unfolding medical_rows using c empty_group [OF e, of rnd] by force
  fix s
  assume s: "s \<in> set (create_medical_conditions_analysis rnd df)"
    and t: "cs_Condition s = c \<and> cs_Group s = ''With Condition''"
  from s obtain c' col' where m: "(c', col') \<in> set conditions"
    and "s = \<lparr>cs_Condition = c', cs_Group = ''With Condition'',
           cs_NoShowRate = np_mul rnd (mean rnd (map NoShow_Binary (filter (\<lambda>r. col' r = Some 1) df))) (Fin 100)\<rparr> \<or>
         s = \<lparr>cs_Condition = c', cs_Group = ''Without Condition'',
           cs_NoShowRate = np_mul rnd (mean rnd (map NoShow_Binary (filter (\<lambda>r. col' r = Some 0) df))) (Fin 100)\<rparr>"
    unfolding medical_rows by blast
  with t have "c' = c" and v: "cs_NoShowRate s =
      np_mul rnd (mean rnd (map NoShow_Binary (filter (\<lambda>r. col' r = Some 1) df))) (Fin 100)"
    by auto
  then have "col' = col" using m c conditions_functional by blast
  then show "cs_NoShowRate s = NaN" using v empty_group [OF e, of rnd] by simp
next
  assume e: "\<not> (\<exists>r\<in>set df. col r = Some 0)"
  show "\<lparr>cs_Condition = c, cs_Group = ''Without Condition'', cs_NoShowRate = NaN\<rparr>
      \<in> set (create_medical_conditions_analysis rnd df)"
    unfolding medical_rows using c empty_group [OF e, of rnd] by force
  fix s
  assume s: "s \<in> set (create_medical_conditions_analysis rnd df)"
    and t: "cs_Condition s = c \<and> cs_Group s = ''Without Condition''"
  from s obtain c' col' where m: "(c', col') \<in> set conditions"
    and "s = \<lparr>cs_Condition = c', cs_Group = ''With Condition'',
           cs_NoShowRate = np_mul rnd (mean rnd (map NoShow_Binary (filter (\<lambda>r. col' r = Some 1) df))) (Fin 100)\<rparr> \<or>
         s = \<lparr>cs_Condition = c', cs_Group = ''Without Condition'',
           cs_NoShowRate = np_mul rnd (mean rnd (map NoShow_Binary (filter (\<lambda>r. col' r = Some 0) df))) (Fin 100)\<rparr>"
    unfolding medical_rows by blast
  with t have "c' = c" and v: "cs_NoShowRate s =
      np_mul rnd (mean rnd (map NoShow_Binary (filter (\<lambda>r. col' r = Some 0) df))) (Fin 100)"
    by auto
  then have "col' = col" using m c conditions_functional by blast
  then show "cs_NoShowRate s = NaN" using v empty_group [OF e, of rnd] by simp
qed

lemma sample_diabetes: "Diabetes sample_row = Some 0" "Diabetes sample_row2 = Some 0"
  by (simp_all add: sample_row_def sample_row2_def sample_raw_def sample_raw2_def
      add_features_def Let_def raw_row.defs row.defs)

theorem empty_group_rate_nan_witness:
  "(''Diabetes'', Diabetes) \<in> set conditions \<and>
   \<not> (\<exists>r\<in>set [sample_row, sample_row2]. Diabetes r = Some 1) \<and>
   \<lparr>cs_Condition = ''Diabetes'', cs_Group = ''With Condition'', cs_NoShowRate = NaN\<rparr>
     \<in> set (create_medical_conditions_analysis (\<lambda>x. x) [sample_row, sample_row2])"
proof -
  have m: "(''Diabetes'', Diabetes) \<in> set conditions" by (simp add: conditions_def)
  have e: "\<not> (\<exists>r\<in>set [sample_row, sample_row2]. Diabetes r = Some 1)"
    by (simp add: sample_diabetes)
  show ?thesis
    using empty_group_rate_nan [OF m, of "[sample_row, sample_row2]" "\<lambda>x. x"] m e by blast
qed

subsection \<open>Neighbourhoods\<close>

lemma nlargest_length: "length (nlargest n col xs) = min n (length xs)"
  by (simp add: nlargest_def min.commute)

lemma nlargest_subset: "set (nlargest n col xs) \<subseteq> set xs"
  using set_take_subset [of n "sort_key (\<lambda>x. - col x) xs"] by (simp add: nlargest_def)

lemma sorted_neg_descending:
  "sorted (map (\<lambda>x. - col x) ys) \<Longrightarrow> sorted_wrt (\<lambda>s t. (col t :: int) \<le> col s) ys"
  by (induction ys) auto

lemma nlargest_descending: "sorted_wrt (\<lambda>s t. col t \<le> col s) (nlargest n col xs)"
proof -
  have "sorted (map (\<lambda>x. - col x) (sort_key (\<lambda>x. - col x) xs))" by simp
  then have "sorted_wrt (\<lambda>s t. col t \<le> col s) (sort_key (\<lambda>x. - col x) xs)"
    by (rule sorted_neg_descending)
  then show ?thesis unfolding nlargest_def by (rule sorted_wrt_take)
qed

lemma nlargest_dominates:
  assumes s: "s \<in> set xs" "s \<notin> set (nlargest n col xs)" and t: "t \<in> set (nlargest n col xs)"
  shows "col s \<le> col t"
proof -
  let ?ys = "sort_key (\<lambda>x. - col x) xs"
  have "sorted_wrt (\<lambda>s t. col t \<le> col s) (take n ?ys @ drop n ?ys)"
    using sorted_neg_descending [of col ?ys] by simp
  then have d: "\<forall>a\<in>set (take n ?ys). \<forall>b\<in>set (drop n ?ys). col b \<le> col a"
    unfolding sorted_wrt_append by blast
  have "set ?ys = set (take n ?ys) \<union> set (drop n ?ys)"
    using set_append [of "take n ?ys" "drop n ?ys"] by simp
  then have "s \<in> set (drop n ?ys)" using s by (simp add: nlargest_def)
  then show ?thesis using d t by (simp add: nlargest_def)
qed

lemma nb_names:
  "map nb_Neighbourhood (neighborhood_stats rnd df) = group_keys Neighbourhood df"
  by (simp add: neighborhood_stats_def Let_def comp_def)

lemma nb_totals:
  "map (\<lambda>s. (nb_Neighbourhood s, nb_TotalAppointments s)) (neighborhood_stats rnd df) =
     map (\<lambda>k. (k, int (length (filter (\<lambda>r. Neighbourhood r = Some k \<and> AppointmentID r \<noteq> None) df))))
       (group_keys Neighbourhood df)"
  by (simp add: neighborhood_stats_def Let_def comp_def conj_commute)

lemma three_sorted:
  fixes zs :: "(string \<times> int) list"
  assumes l: "length zs = 3" and s: "set zs = {(a, 50), (b, 30), (c, 10)}"
    and o: "sorted (map (\<lambda>p. - snd p) zs)"
  shows "zs = [(a, 50), (b, 30), (c, 10)]"
proof -
  let ?f = "\<lambda>p::string \<times> int. - snd p"
  have st: "set (map ?f zs) = {- 50, - 30, - 10}" using s by simp
  then have "card (set (map ?f zs)) = length (map ?f zs)" using l by simp
  then have ds: "distinct (map ?f zs)" by (rule card_distinct)
  have "map ?f zs = [- 50, - 30, - 10]"
    using o ds st by (intro sorted_distinct_set_unique) simp_all
  then obtain x y z where zs: "zs = [x, y, z]" and v: "snd x = 50" "snd y = 30" "snd z = 10"
    by (auto simp: map_eq_Cons_conv)
  have "x \<in> {(a, 50), (b, 30), (c, 10)}" "y \<in> {(a, 50), (b, 30), (c, 10)}"
    "z \<in> {(a, 50), (b, 30), (c, 10)}" using s zs by auto
  then have "x = (a, 50)" "y = (b, 30)" "z = (c, 10)" using v by auto
  then show ?thesis using zs by simp
qed

lemma scenario:
  assumes ks: "set (group_keys Neighbourhood df) = {a, b, c}" and d: "distinct [a, b, c]"
    and va: "length (filter (\<lambda>r. Neighbourhood r = Some a \<and> AppointmentID r \<noteq> None) df) = 50"
    and vb: "length (filter (\<lambda>r. Neighbourhood r = Some b \<and> AppointmentID r \<noteq> None) df) = 30"
    and vc: "length (filter (\<lambda>r. Neighbourhood r = Some c \<and> AppointmentID r \<noteq> None) df) = 10"
  shows "map (\<lambda>s. (nb_Neighbourhood s, nb_TotalAppointments s))
           (create_neighborhood_analysis rnd df 2) = [(a, 50), (b, 30)]"
proof -
  let ?p = "\<lambda>s. (nb_Neighbourhood s, nb_TotalAppointments s)"
  let ?st = "neighborhood_stats rnd df"
  let ?ys = "sort_key (\<lambda>s. - nb_TotalAppointments s) ?st"
  let ?v = "\<lambda>k. (k, int (length (filter (\<lambda>r. Neighbourhood r = Some k \<and> AppointmentID r \<noteq> None) df)))"
  have "card (set (group_keys Neighbourhood df)) = 3" using ks d by simp
  then have l: "length (group_keys Neighbourhood df) = 3"
    using distinct_card [OF distinct_group_keys, of Neighbourhood df] by simp
  have "set (map ?p ?st) = ?v ` {a, b, c}" unfolding nb_totals using ks by simp
  then have s: "set (map ?p ?ys) = {(a, 50), (b, 30), (c, 10)}"
    using va vb vc by simp
  have len: "length (map ?p ?ys) = 3" using l nb_names [of rnd df]
    by (metis length_map length_sort)
  have "map (\<lambda>p. - snd p) (map ?p ?ys) = map (\<lambda>s. - nb_TotalAppointments s) ?ys"
    by simp
  then have o: "sorted (map (\<lambda>p. - snd p) (map ?p ?ys))"
    by (simp only: sorted_sort_key)
  have "map ?p ?ys = [(a, 50), (b, 30), (c, 10)]" using len s o by (rule three_sorted)
  then have "take 2 (map ?p ?ys) = [(a, 50), (b, 30)]" by simp
  then show ?thesis by (simp add: create_neighborhood_analysis_def nlargest_def take_map)
qed

text \<open>
  C7: the output has \<open>top_n\<close> rows, or one per neighbourhood when there are fewer; they
  are rows of the per-neighbourhood table in descending order of volume, and no row left
  out has a larger volume than a row kept; with the default there are at most 15. For
  three neighbourhoods of volumes 50, 30 and 10 and \<open>top_n = 2\<close>, whatever the order of
  the rows, the output is the neighbourhood of 50 and then that of 30.
\<close>

theorem neighborhood_top_n:
  "length (create_neighborhood_analysis rnd df top_n) =
     min top_n (card {k. Some k \<in> set (map Neighbourhood df)}) \<and>
   set (create_neighborhood_analysis rnd df top_n) \<subseteq> set (neighborhood_stats rnd df) \<and>
   sorted_wrt (\<lambda>s t. nb_TotalAppointments t \<le> nb_TotalAppointments s)
     (create_neighborhood_analysis rnd df top_n) \<and>
   (\<forall>s\<in>set (neighborhood_stats rnd df) - set (create_neighborhood_analysis rnd df top_n).
      \<forall>t\<in>set (create_neighborhood_analysis rnd df top_n).
        nb_TotalAppointments s \<le> nb_TotalAppointments t) \<and>
   length (create_neighborhood_analysis rnd df top_n_default) \<le> 15 \<and>
   ({k. Some k \<in> set (map Neighbourhood df)} = {a, b, c} \<and> distinct [a, b, c] \<and>
    length (filter (\<lambda>r. Neighbourhood r = Some a \<and> AppointmentID r \<noteq> None) df) = 50 \<and>
    length (filter (\<lambda>r. Neighbourhood r = Some b \<and> AppointmentID r \<noteq> None) df) = 30 \<and>
    length (filter (\<lambda>r. Neighbourhood r = Some c \<and> AppointmentID r \<noteq> None) df) = 10 \<longrightarrow>
    map (\<lambda>s. (nb_Neighbourhood s, nb_TotalAppointments s))
      (create_neighborhood_analysis rnd df 2) = [(a, 50), (b, 30)])"
proof (intro conjI impI ballI)
  have "length (neighborhood_stats rnd df) = length (group_keys Neighbourhood df)"
    using nb_names [of rnd df] by (metis length_map)
  also have "\<dots> = card {k. Some k \<in> set (map Neighbourhood df)}"
    using distinct_card [OF distinct_group_keys, of Neighbourhood df]
    by (simp only: set_group_keys)
  finally show "length (create_neighborhood_analysis rnd df top_n) =
      min top_n (card {k. Some k \<in> set (map Neighbourhood df)})"
    by (simp add: create_neighborhood_analysis_def nlargest_length)
  show "set (create_neighborhood_analysis rnd df top_n) \<subseteq> set (neighborhood_stats rnd df)"
    by (simp add: create_neighborhood_analysis_def nlargest_subset)
  show "sorted_wrt (\<lambda>s t. nb_TotalAppointments t \<le> nb_TotalAppointments s)
      (create_neighborhood_analysis rnd df top_n)"
    by (simp add: create_neighborhood_analysis_def nlargest_descending)
  show "length (create_neighborhood_analysis rnd df top_n_default) \<le> 15"
    by (simp add: create_neighborhood_analysis_def nlargest_length top_n_default_def)
next
  fix s t
  assume "s \<in> set (neighborhood_stats rnd df) - set (create_neighborhood_analysis rnd df top_n)"
    and "t \<in> set (create_neighborhood_analysis rnd df top_n)"
  then show "nb_TotalAppointments s \<le> nb_TotalAppointments t"
    using nlargest_dominates [of s "neighborhood_stats rnd df" top_n nb_TotalAppointments t]
    by (simp add: create_neighborhood_analysis_def)
next
  assume h: "{k. Some k \<in> set (map Neighbourhood df)} = {a, b, c} \<and> distinct [a, b, c] \<and>
    length (filter (\<lambda>r. Neighbourhood r = Some a \<and> AppointmentID r \<noteq> None) df) = 50 \<and>
    length (filter (\<lambda>r. Neighbourhood r = Some b \<and> AppointmentID r \<noteq> None) df) = 30 \<and>
    length (filter (\<lambda>r. Neighbourhood r = Some c \<and> AppointmentID r \<noteq> None) df) = 10"
  have 1: "set (group_keys Neighbourhood df) = {a, b, c}"
    using h by (simp only: set_group_keys)
  have 2: "distinct [a, b, c]" using h by blast
  have 3: "length (filter (\<lambda>r. Neighbourhood r = Some a \<and> AppointmentID r \<noteq> None) df) = 50"
    using h by blast
  have 4: "length (filter (\<lambda>r. Neighbourhood r = Some b \<and> AppointmentID r \<noteq> None) df) = 30"
    using h by blast
  have 5: "length (filter (\<lambda>r. Neighbourhood r = Some c \<and> AppointmentID r \<noteq> None) df) = 10"
    using h by blast
  show "map (\<lambda>s. (nb_Neighbourhood s, nb_TotalAppointments s))
      (create_neighborhood_analysis rnd df 2) = [(a, 50), (b, 30)]"
    using 1 2 3 4 5 by (rule scenario)
qed

lemma sample_row_id: "AppointmentID sample_row = Some 5642903"
  by (simp add: sample_row_def sample_raw_def add_features_def Let_def raw_row.defs row.defs)

lemma sample_volumes_keys:
  "{k. Some k \<in> set (map Neighbourhood sample_volumes)} =
     {''Maria Ortiz'', ''Jardim Camburi'', ''Centro''}"
  by (auto simp: sample_volumes_def)

lemma sample_volumes_counts:
  "length (filter (\<lambda>r. Neighbourhood r = Some ''Maria Ortiz'' \<and> AppointmentID r \<noteq> None)
     sample_volumes) = 50"
  "length (filter (\<lambda>r. Neighbourhood r = Some ''Jardim Camburi'' \<and> AppointmentID r \<noteq> None)
     sample_volumes) = 30"
  "length (filter (\<lambda>r. Neighbourhood r = Some ''Centro'' \<and> AppointmentID r \<noteq> None)
     sample_volumes) = 10"
  by (simp_all add: sample_volumes_def sample_row_id)

theorem neighborhood_top_n_witness:
  "{k. Some k \<in> set (map Neighbourhood sample_volumes)} =
     {''Maria Ortiz'', ''Jardim Camburi'', ''Centro''} \<and>
   map (\<lambda>s. (nb_Neighbourhood s, nb_TotalAppointments s))
     (create_neighborhood_analysis (\<lambda>x. x) sample_volumes 2) =
     [(''Maria Ortiz'', 50), (''Jardim Camburi'', 30)] \<and>
   length (create_neighborhood_analysis (\<lambda>x. x) sample_volumes 2) = 2"
proof -
  have d: "distinct [''Maria Ortiz'', ''Jardim Camburi'', ''Centro'']" by simp
  have t: "map (\<lambda>s. (nb_Neighbourhood s, nb_TotalAppointments s))
      (create_neighborhood_analysis (\<lambda>x. x) sample_volumes 2) =
      [(''Maria Ortiz'', 50), (''Jardim Camburi'', 30)]"
    using neighborhood_top_n [of "\<lambda>x. x" sample_volumes 2 "''Maria Ortiz''" "''Jardim Camburi''"
        "''Centro''"] sample_volumes_keys sample_volumes_counts d
    by blast
  have "length (map (\<lambda>s. (nb_Neighbourhood s, nb_TotalAppointments s))
      (create_neighborhood_analysis (\<lambda>x. x) sample_volumes 2)) =
      length [(''Maria Ortiz'', 50::int), (''Jardim Camburi'', 30)]"
    using t by (rule arg_cong)
  then have l: "length (create_neighborhood_analysis (\<lambda>x. x) sample_volumes 2) = 2"
    by simp
  show ?thesis using sample_volumes_keys t l by (intro conjI)
qed

section \<open>Properties of the interactive filters\<close>

lemma cell_le_iff: "cell_le c m \<longleftrightarrow> (\<exists>d. c = Some d \<and> d \<le> m)"
  by (cases c) simp_all

lemma filtered_df_eq:
  "filtered_df df age_group gender m =
     filter (\<lambda>r. (age_group = ''all'' \<or> AgeGroup r = Some age_group) \<and>
                 (gender = ''all'' \<or> Gender r = Some gender) \<and>
                 (\<exists>d. DaysWaiting r = Some d \<and> d \<le> m)) df"
  by (auto simp: filtered_df_def Let_def cell_le_iff intro: filter_cong)

text \<open>
  C6: the filtered frame holds the rows that pass each selector that is not \<open>all\<close> and
  whose waiting time is at most the threshold, the threshold included. With both
  selectors \<open>all\<close> and a threshold no less than every waiting time of the cleaned
  table, it is the cleaned table.
\<close>

theorem filter_reconciliation:
  "filtered_df df age_group gender m =
     filter (\<lambda>r. (age_group = ''all'' \<or> AgeGroup r = Some age_group) \<and>
                 (gender = ''all'' \<or> Gender r = Some gender) \<and>
                 (\<exists>d. DaysWaiting r = Some d \<and> d \<le> m)) df \<and>
   (df = load_and_clean_data strip title csv \<and>
    (\<forall>r\<in>set df. \<forall>d. DaysWaiting r = Some d \<longrightarrow> d \<le> m) \<longrightarrow>
    filtered_df df ''all'' ''all'' m = df)"
proof (intro conjI impI)
  show "filtered_df df age_group gender m =
     filter (\<lambda>r. (age_group = ''all'' \<or> AgeGroup r = Some age_group) \<and>
                 (gender = ''all'' \<or> Gender r = Some gender) \<and>
                 (\<exists>d. DaysWaiting r = Some d \<and> d \<le> m)) df"
    by (rule filtered_df_eq)
next
  assume a: "df = load_and_clean_data strip title csv \<and>
    (\<forall>r\<in>set df. \<forall>d. DaysWaiting r = Some d \<longrightarrow> d \<le> m)"
  then have "\<forall>r\<in>set df. \<exists>d. DaysWaiting r = Some d \<and> d \<le> m"
    using cleaned_waiting by blast
  then show "filtered_df df ''all'' ''all'' m = df"
    by (simp add: filtered_df_eq)
qed

lemma sample_waiting:
  "DaysWaiting sample_row = Some 1" "DaysWaiting sample_row2 = Some 4"
  by (simp_all add: sample_row_def sample_row2_def sample_raw_def sample_raw2_def
      add_features_def Let_def timedelta_days_def raw_row.defs row.defs)

theorem filter_reconciliation_witness:
  "DaysWaiting sample_row = Some 1 \<and> DaysWaiting sample_row2 = Some 4 \<and>
   filtered_df (load_and_clean_data (\<lambda>s. s) (\<lambda>s. s) sample_csv) ''all'' ''all'' 4 =
     [sample_row, sample_row2] \<and>
   filtered_df (load_and_clean_data (\<lambda>s. s) (\<lambda>s. s) sample_csv) ''all'' ''all'' 3 = [sample_row]"
proof -
  have h: "\<forall>r\<in>set (load_and_clean_data (\<lambda>s. s) (\<lambda>s. s) sample_csv).
      \<forall>d. DaysWaiting r = Some d \<longrightarrow> d \<le> 4"
    by (simp add: sample_cleaned sample_waiting)
  have "filtered_df (load_and_clean_data (\<lambda>s. s) (\<lambda>s. s) sample_csv) ''all'' ''all'' 4 =
      load_and_clean_data (\<lambda>s. s) (\<lambda>s. s) sample_csv"
    using filter_reconciliation [of "load_and_clean_data (\<lambda>s. s) (\<lambda>s. s) sample_csv" "''all''"
        "''all''" 4 "\<lambda>s. s" "\<lambda>s. s" sample_csv] h by blast
  moreover have "filtered_df (load_and_clean_data (\<lambda>s. s) (\<lambda>s. s) sample_csv) ''all'' ''all'' 3 =
      [sample_row]"
    by (simp add: filtered_df_def sample_cleaned sample_waiting)
  ultimately show ?thesis by (simp add: sample_cleaned sample_waiting)
qed

end
